theory Spec2Isabelle
  imports Main "HOL-Library.Word"
begin

section \<open>Strings and identifiers\<close>

text \<open>
  A JavaScript string is a sequence of UTF-16 code units; \<open>length\<close> counts code units,
  as \<^verbatim>\<open>name.length\<close> does. \<open>js\<close> embeds an ASCII literal of the source.
\<close>

type_synonym jsstring = "16 word list"

definition js :: "string \<Rightarrow> jsstring" where
  "js s = map (\<lambda>c. of_nat (of_char c)) s"

text \<open>
  \<^verbatim>\<open>String.prototype.trim\<close>: strips white space and line terminators (ECMAScript
  WhiteSpace and LineTerminator code points, all in the basic plane) from both ends.
\<close>

definition is_ws :: "16 word \<Rightarrow> bool" where
  "is_ws c \<longleftrightarrow>
     c = 0x0009 \<or> c = 0x000A \<or> c = 0x000B \<or> c = 0x000C \<or> c = 0x000D \<or> c = 0x0020 \<or>
     c = 0x00A0 \<or> c = 0x1680 \<or> (0x2000 \<le> c \<and> c \<le> 0x200A) \<or> c = 0x2028 \<or>
     c = 0x2029 \<or> c = 0x202F \<or> c = 0x205F \<or> c = 0x3000 \<or> c = 0xFEFF"

definition trim :: "jsstring \<Rightarrow> jsstring" where
  "trim s = rev (dropWhile is_ws (rev (dropWhile is_ws s)))"

text \<open>
  The driver's \<^verbatim>\<open>ObjectId\<close>: twelve bytes, written as 24 hexadecimal digits of
  either case. \<^verbatim>\<open>ObjectId.isValid\<close> on a string accepts exactly those strings
  (\<^verbatim>\<open>/^[0-9a-fA-F]{24}$/\<close>); the constructor throws on any other string. The
  value is held as its canonical text, the lower-case digits that \<^verbatim>\<open>toString()\<close>
  prints, so that two ObjectIds are equal exactly when their bytes are.
\<close>

definition is_hex :: "16 word \<Rightarrow> bool" where
  "is_hex c \<longleftrightarrow> (0x30 \<le> c \<and> c \<le> 0x39) \<or> (0x61 \<le> c \<and> c \<le> 0x66) \<or> (0x41 \<le> c \<and> c \<le> 0x46)"

definition hex_lower :: "16 word \<Rightarrow> 16 word" where
  "hex_lower c = (if 0x41 \<le> c \<and> c \<le> 0x46 then c + 0x20 else c)"

datatype ObjectId = ObjectId (toHexString: jsstring)

definition isValid :: "jsstring \<Rightarrow> bool" where
  "isValid s \<longleftrightarrow> length s = 24 \<and> list_all is_hex s"

text \<open>\<^verbatim>\<open>new ObjectId(s)\<close>; \<open>None\<close> is the exception thrown for a malformed string.\<close>

definition new_ObjectId :: "jsstring \<Rightarrow> ObjectId option" where
  "new_ObjectId s = (if isValid s then Some (ObjectId (map hex_lower s)) else None)"

section \<open>Documents and the store\<close>

text \<open>Dates are milliseconds since the epoch, as \<^verbatim>\<open>new Date()\<close> holds them.\<close>

type_synonym date = int

record user =
  u_id :: ObjectId
  u_username :: jsstring
  u_email :: jsstring
  u_password :: jsstring
  u_role :: jsstring
  u_createdAt :: date
  u_updatedAt :: date

record track =
  t_id :: ObjectId
  t_title :: jsstring
  t_artist :: jsstring
  t_album :: jsstring
  t_durationSeconds :: int
  t_createdAt :: date

record playlist =
  p_id :: ObjectId
  p_name :: jsstring
  p_description :: jsstring
  p_coverUrl :: jsstring
  p_userId :: ObjectId
  p_tracks :: "ObjectId list"
  p_createdAt :: date
  p_updatedAt :: date

text \<open>
  The database: one list of documents per collection, in the store's natural order.
\<close>

record db =
  coll_users :: "user list"
  coll_tracks :: "track list"
  coll_playlists :: "playlist list"

subsection \<open>The driver's operations\<close>

text \<open>\<^verbatim>\<open>findOne(query)\<close>: the first document that matches, or null.\<close>

definition findOne :: "('a \<Rightarrow> bool) \<Rightarrow> 'a list \<Rightarrow> 'a option" where
  "findOne q ds = List.find q ds"

text \<open>\<^verbatim>\<open>find(query).toArray()\<close>.\<close>

definition find_all :: "('a \<Rightarrow> bool) \<Rightarrow> 'a list \<Rightarrow> 'a list" where
  "find_all q ds = filter q ds"

text \<open>\<^verbatim>\<open>sort({createdAt: -1})\<close>: descending by the key.\<close>

definition sort_desc :: "('a \<Rightarrow> int) \<Rightarrow> 'a list \<Rightarrow> 'a list" where
  "sort_desc k ds = sort_key (\<lambda>d. - k d) ds"

text \<open>
  \<^verbatim>\<open>updateOne(query, update)\<close> changes the first matching document and reports
  \<^verbatim>\<open>matchedCount\<close>; \<^verbatim>\<open>deleteOne(query)\<close> removes the first matching document and
  reports \<^verbatim>\<open>deletedCount\<close>.
\<close>

fun update_first :: "('a \<Rightarrow> bool) \<Rightarrow> ('a \<Rightarrow> 'a) \<Rightarrow> 'a list \<Rightarrow> 'a list" where
  "update_first q f [] = []"
| "update_first q f (d # ds) = (if q d then f d # ds else d # update_first q f ds)"

definition updateOne :: "('a \<Rightarrow> bool) \<Rightarrow> ('a \<Rightarrow> 'a) \<Rightarrow> 'a list \<Rightarrow> nat \<times> 'a list" where
  "updateOne q f ds = (if list_ex q ds then 1 else 0, update_first q f ds)"

fun delete_first :: "('a \<Rightarrow> bool) \<Rightarrow> 'a list \<Rightarrow> 'a list" where
  "delete_first q [] = []"
| "delete_first q (d # ds) = (if q d then ds else d # delete_first q ds)"

definition deleteOne :: "('a \<Rightarrow> bool) \<Rightarrow> 'a list \<Rightarrow> nat \<times> 'a list" where
  "deleteOne q ds = (if list_ex q ds then 1 else 0, delete_first q ds)"

text \<open>
  The update operators on an array field: \<^verbatim>\<open>$addToSet\<close> appends the value unless the
  array holds it already, \<^verbatim>\<open>$pull\<close> removes every element equal to the value.
\<close>

definition addToSet :: "'a \<Rightarrow> 'a list \<Rightarrow> 'a list" where
  "addToSet x xs = (if x \<in> set xs then xs else xs @ [x])"

definition pull :: "'a \<Rightarrow> 'a list \<Rightarrow> 'a list" where
  "pull x xs = filter (\<lambda>y. y \<noteq> x) xs"

section \<open>Responses\<close>

record owner_info =
  o_username :: jsstring
  o_id :: ObjectId

text \<open>A row of the administrator's listing: the projected playlist fields and the joined owner.\<close>

record playlist_row =
  r_id :: ObjectId
  r_name :: jsstring
  r_description :: jsstring
  r_coverUrl :: jsstring
  r_tracks :: "ObjectId list"
  r_userId :: ObjectId
  r_createdAt :: date
  r_owner :: "owner_info option"

datatype body =
    Error jsstring
  | Message jsstring
  | Playlists "playlist list"
  | PlaylistRows "playlist_row list"
  | PlaylistDetail playlist bool "track list"
  | Created playlist
  | TrackAdded jsstring track

record response =
  status :: nat
  body :: body

definition json :: "body \<Rightarrow> response" where
  "json b = \<lparr>status = 200, body = b\<rparr>"

definition error :: "nat \<Rightarrow> string \<Rightarrow> response" where
  "error code msg = \<lparr>status = code, body = Error (js msg)\<rparr>"

text \<open>The \<^verbatim>\<open>catch\<close> block of every handler.\<close>

definition server_error :: response where
  "server_error = error 500 ''Server error''"

section \<open>The playlist routes\<close>

text \<open>
  Every handler takes the store, \<^verbatim>\<open>req.session.userId\<close> (a string; the router runs
  behind the authentication gate), the request's parameters and body fields (a body field
  that is absent is \<open>None\<close>; the fields are strings), and what the request reads from its
  environment: the clock \<^verbatim>\<open>new Date()\<close>, read once per request, and for an insertion
  the identifier the driver generates. A handler that writes returns the response and the
  store afterwards. An exception inside \<^verbatim>\<open>try\<close> gives the 500 response of the
  \<^verbatim>\<open>catch\<close> block.
\<close>

text \<open>\<^verbatim>\<open>user && user.role === 'admin'\<close>\<close>

definition isAdmin :: "user option \<Rightarrow> bool" where
  "isAdmin user = (case user of None \<Rightarrow> False | Some u \<Rightarrow> u_role u = js ''admin'')"

text \<open>
  The aggregation of the administrator's listing: \<^verbatim>\<open>$lookup\<close> of the owner,
  \<^verbatim>\<open>$unwind\<close> keeping playlists without one, \<^verbatim>\<open>$project\<close>.
\<close>

definition project_row :: "playlist \<Rightarrow> user option \<Rightarrow> playlist_row" where
  "project_row p owner =
     \<lparr>r_id = p_id p, r_name = p_name p, r_description = p_description p,
      r_coverUrl = p_coverUrl p, r_tracks = p_tracks p, r_userId = p_userId p,
      r_createdAt = p_createdAt p,
      r_owner = map_option (\<lambda>u. \<lparr>o_username = u_username u, o_id = u_id u\<rparr>) owner\<rparr>"

definition lookup_unwind :: "user list \<Rightarrow> playlist \<Rightarrow> playlist_row list" where
  "lookup_unwind us p =
     (case find_all (\<lambda>u. u_id u = p_userId p) us of
        [] \<Rightarrow> [project_row p None]
      | os \<Rightarrow> map (\<lambda>u. project_row p (Some u)) os)"

text \<open>\<^verbatim>\<open>GET /api/playlists\<close>\<close>

definition get_playlists :: "db \<Rightarrow> jsstring \<Rightarrow> response" where
  "get_playlists d sessionUserId =
     (case new_ObjectId sessionUserId of
        None \<Rightarrow> server_error
      | Some uid \<Rightarrow>
          if isAdmin (findOne (\<lambda>u. u_id u = uid) (coll_users d))
          then json (PlaylistRows
                 (sort_desc r_createdAt (concat (map (lookup_unwind (coll_users d)) (coll_playlists d)))))
          else json (Playlists
                 (sort_desc p_createdAt (find_all (\<lambda>p. p_userId p = uid) (coll_playlists d)))))"

text \<open>\<^verbatim>\<open>GET /api/playlists/:id\<close>\<close>

definition get_playlist :: "db \<Rightarrow> jsstring \<Rightarrow> jsstring \<Rightarrow> response" where
  "get_playlist d sessionUserId params_id =
     (if \<not> isValid params_id then error 400 ''Invalid playlist ID''
      else case new_ObjectId sessionUserId of
        None \<Rightarrow> server_error
      | Some uid \<Rightarrow>
         (case new_ObjectId params_id of
            None \<Rightarrow> server_error
          | Some pid \<Rightarrow>
             (case findOne (\<lambda>p. p_id p = pid \<and>
                        (isAdmin (findOne (\<lambda>u. u_id u = uid) (coll_users d)) \<or> p_userId p = uid))
                     (coll_playlists d) of
                None \<Rightarrow> error 404 ''Playlist not found''
              | Some playlist \<Rightarrow>
                  json (PlaylistDetail playlist
                    (toHexString (p_userId playlist) = sessionUserId)
                    (if p_tracks playlist \<noteq> []
                     then find_all (\<lambda>t. t_id t \<in> set (p_tracks playlist)) (coll_tracks d)
                     else [])))))"

text \<open>\<^verbatim>\<open>POST /api/playlists\<close>. \<^verbatim>\<open>insertOne\<close> appends the document under the generated
  identifier and throws on a duplicate key.\<close>

definition opt_trim :: "jsstring option \<Rightarrow> jsstring" where
  "opt_trim s = (case s of None \<Rightarrow> [] | Some x \<Rightarrow> trim x)"

definition post_playlist ::
  "db \<Rightarrow> jsstring \<Rightarrow> jsstring option \<Rightarrow> jsstring option \<Rightarrow> jsstring option \<Rightarrow> date \<Rightarrow> ObjectId
     \<Rightarrow> response \<times> db" where
  "post_playlist d sessionUserId name description coverUrl now insertedId =
     (case name of
        None \<Rightarrow> (error 400 ''Playlist name is required'', d)
      | Some n \<Rightarrow>
          if n = [] \<or> trim n = [] then (error 400 ''Playlist name is required'', d)
          else if length n > 100 then (error 400 ''Name must be 100 characters or less'', d)
          else (case new_ObjectId sessionUserId of
            None \<Rightarrow> (server_error, d)
          | Some uid \<Rightarrow>
              let newPlaylist =
                \<lparr>p_id = insertedId, p_name = trim n, p_description = opt_trim description,
                 p_coverUrl = opt_trim coverUrl, p_userId = uid, p_tracks = [],
                 p_createdAt = now, p_updatedAt = now\<rparr>
              in if list_ex (\<lambda>p. p_id p = insertedId) (coll_playlists d) then (server_error, d)
                 else (\<lparr>status = 201, body = Created newPlaylist\<rparr>,
                       d\<lparr>coll_playlists := coll_playlists d @ [newPlaylist]\<rparr>)))"

text \<open>\<^verbatim>\<open>PUT /api/playlists/:id\<close>. \<open>updateData\<close> is the \<^verbatim>\<open>$set\<close> document.\<close>

definition updateData ::
  "jsstring option \<Rightarrow> jsstring option \<Rightarrow> jsstring option \<Rightarrow> date \<Rightarrow> playlist \<Rightarrow> playlist" where
  "updateData name description coverUrl now p =
     p\<lparr>p_updatedAt := now,
       p_name := (case name of None \<Rightarrow> p_name p | Some n \<Rightarrow> trim n),
       p_description := (case description of None \<Rightarrow> p_description p | Some x \<Rightarrow> trim x),
       p_coverUrl := (case coverUrl of None \<Rightarrow> p_coverUrl p | Some x \<Rightarrow> trim x)\<rparr>"

definition put_playlist ::
  "db \<Rightarrow> jsstring \<Rightarrow> jsstring \<Rightarrow> jsstring option \<Rightarrow> jsstring option \<Rightarrow> jsstring option \<Rightarrow> date
     \<Rightarrow> response \<times> db" where
  "put_playlist d sessionUserId params_id name description coverUrl now =
     (if \<not> isValid params_id then (error 400 ''Invalid playlist ID'', d)
      else if (case name of None \<Rightarrow> False | Some n \<Rightarrow> trim n = [])
      then (error 400 ''Playlist name cannot be empty'', d)
      else case new_ObjectId params_id of
        None \<Rightarrow> (server_error, d)
      | Some pid \<Rightarrow>
         (case new_ObjectId sessionUserId of
            None \<Rightarrow> (server_error, d)
          | Some uid \<Rightarrow>
             (case updateOne (\<lambda>p. p_id p = pid \<and> p_userId p = uid)
                     (updateData name description coverUrl now) (coll_playlists d) of
                (matchedCount, ps) \<Rightarrow>
                  if matchedCount = 0 then (error 404 ''Playlist not found'', d)
                  else (json (Message (js ''Playlist updated successfully'')),
                        d\<lparr>coll_playlists := ps\<rparr>))))"

text \<open>\<^verbatim>\<open>POST /api/playlists/:id/tracks\<close>\<close>

definition post_playlist_track ::
  "db \<Rightarrow> jsstring \<Rightarrow> jsstring \<Rightarrow> jsstring option \<Rightarrow> date \<Rightarrow> response \<times> db" where
  "post_playlist_track d sessionUserId params_id trackId now =
     (if \<not> isValid params_id then (error 400 ''Invalid playlist ID'', d)
      else case trackId of
        None \<Rightarrow> (error 400 ''Valid track ID is required'', d)
      | Some tid \<Rightarrow>
          if tid = [] \<or> \<not> isValid tid then (error 400 ''Valid track ID is required'', d)
          else (case new_ObjectId tid of
            None \<Rightarrow> (server_error, d)
          | Some t \<Rightarrow>
             (case findOne (\<lambda>x. t_id x = t) (coll_tracks d) of
                None \<Rightarrow> (error 404 ''Track not found'', d)
              | Some track \<Rightarrow>
                 (case new_ObjectId params_id of
                    None \<Rightarrow> (server_error, d)
                  | Some pid \<Rightarrow>
                     (case new_ObjectId sessionUserId of
                        None \<Rightarrow> (server_error, d)
                      | Some uid \<Rightarrow>
                         (case updateOne (\<lambda>p. p_id p = pid \<and> p_userId p = uid)
                                 (\<lambda>p. p\<lparr>p_tracks := addToSet t (p_tracks p), p_updatedAt := now\<rparr>)
                                 (coll_playlists d) of
                            (matchedCount, ps) \<Rightarrow>
                              if matchedCount = 0 then (error 404 ''Playlist not found'', d)
                              else (json (TrackAdded (js ''Track added to playlist'') track),
                                    d\<lparr>coll_playlists := ps\<rparr>)))))))"

text \<open>\<^verbatim>\<open>DELETE /api/playlists/:id/tracks/:trackId\<close>\<close>

definition delete_playlist_track ::
  "db \<Rightarrow> jsstring \<Rightarrow> jsstring \<Rightarrow> jsstring \<Rightarrow> date \<Rightarrow> response \<times> db" where
  "delete_playlist_track d sessionUserId params_id trackId now =
     (if \<not> isValid params_id \<or> \<not> isValid trackId then (error 400 ''Invalid ID format'', d)
      else case new_ObjectId params_id of
        None \<Rightarrow> (server_error, d)
      | Some pid \<Rightarrow>
         (case new_ObjectId sessionUserId of
            None \<Rightarrow> (server_error, d)
          | Some uid \<Rightarrow>
             (case new_ObjectId trackId of
                None \<Rightarrow> (server_error, d)
              | Some t \<Rightarrow>
                 (case updateOne (\<lambda>p. p_id p = pid \<and> p_userId p = uid)
                         (\<lambda>p. p\<lparr>p_tracks := pull t (p_tracks p), p_updatedAt := now\<rparr>)
                         (coll_playlists d) of
                    (matchedCount, ps) \<Rightarrow>
                      if matchedCount = 0 then (error 404 ''Playlist not found'', d)
                      else (json (Message (js ''Track removed from playlist'')),
                            d\<lparr>coll_playlists := ps\<rparr>)))))"

text \<open>\<^verbatim>\<open>DELETE /api/playlists/:id\<close>\<close>

definition delete_playlist :: "db \<Rightarrow> jsstring \<Rightarrow> jsstring \<Rightarrow> response \<times> db" where
  "delete_playlist d sessionUserId params_id =
     (if \<not> isValid params_id then (error 400 ''Invalid playlist ID'', d)
      else case new_ObjectId params_id of
        None \<Rightarrow> (server_error, d)
      | Some pid \<Rightarrow>
         (case new_ObjectId sessionUserId of
            None \<Rightarrow> (server_error, d)
          | Some uid \<Rightarrow>
             (case deleteOne (\<lambda>p. p_id p = pid \<and> p_userId p = uid) (coll_playlists d) of
                (deletedCount, ps) \<Rightarrow>
                  if deletedCount = 0 then (error 404 ''Playlist not found'', d)
                  else (json (Message (js ''Playlist deleted successfully'')),
                        d\<lparr>coll_playlists := ps\<rparr>))))"

section \<open>The admin routes\<close>

text \<open>
  \<^verbatim>\<open>PATCH /api/admin/users/:id/role\<close>. The role of the body is validated first, then the
  self-demotion check compares the two strings \<^verbatim>\<open>req.params.id\<close> and
  \<^verbatim>\<open>req.session.userId\<close>, then the target is looked up by ObjectId.
\<close>

definition patch_user_role ::
  "db \<Rightarrow> jsstring \<Rightarrow> jsstring \<Rightarrow> jsstring option \<Rightarrow> date \<Rightarrow> response \<times> db" where
  \<open>patch_user_role d sessionUserId params_id role now =
     (if \<not> isValid params_id then (error 400 ''Invalid user ID'', d)
      else case role of
        None \<Rightarrow> (error 400 ''Invalid role. Must be "user" or "admin".'', d)
      | Some r \<Rightarrow>
          if r = [] \<or> r \<notin> set [js ''user'', js ''admin'']
          then (error 400 ''Invalid role. Must be "user" or "admin".'', d)
          else if params_id = sessionUserId \<and> r \<noteq> js ''admin''
          then (error 400 ''Cannot demote yourself from admin'', d)
          else (case new_ObjectId params_id of
            None \<Rightarrow> (server_error, d)
          | Some target \<Rightarrow>
              if (case findOne (\<lambda>u. u_id u = target) (coll_users d) of
                    None \<Rightarrow> False
                  | Some targetUser \<Rightarrow> u_email targetUser = js ''admin@tynda.kz'' \<and> r \<noteq> js ''admin'')
              then (error 403 ''Cannot modify the super admin account'', d)
              else (case updateOne (\<lambda>u. u_id u = target)
                          (\<lambda>u. u\<lparr>u_role := r, u_updatedAt := now\<rparr>) (coll_users d) of
                (matchedCount, us) \<Rightarrow>
                  if matchedCount = 0 then (error 404 ''User not found'', d)
                  else (json (Message (js ''User role updated to '' @ r)),
                        d\<lparr>coll_users := us\<rparr>))))\<close>

text \<open>\<^verbatim>\<open>DELETE /api/admin/users/:id\<close>\<close>

definition delete_user :: "db \<Rightarrow> jsstring \<Rightarrow> jsstring \<Rightarrow> response \<times> db" where
  "delete_user d sessionUserId params_id =
     (if \<not> isValid params_id then (error 400 ''Invalid user ID'', d)
      else if params_id = sessionUserId then (error 400 ''Cannot delete your own account'', d)
      else case new_ObjectId params_id of
        None \<Rightarrow> (server_error, d)
      | Some target \<Rightarrow>
         (case deleteOne (\<lambda>u. u_id u = target) (coll_users d) of
            (deletedCount, us) \<Rightarrow>
              if deletedCount = 0 then (error 404 ''User not found'', d)
              else (json (Message (js ''User deleted successfully'')),
                    d\<lparr>coll_users := us\<rparr>)))"

section \<open>Sequences of add requests\<close>

text \<open>
  A run of \<^verbatim>\<open>POST /api/playlists/:id/tracks\<close> requests, each with its session, playlist
  id, body field and clock reading, handled one after the other.
\<close>

fun add_tracks :: "db \<Rightarrow> (jsstring \<times> jsstring \<times> jsstring option \<times> date) list \<Rightarrow> db" where
  "add_tracks d [] = d"
| "add_tracks d ((sessionUserId, params_id, trackId, now) # reqs) =
     add_tracks (snd (post_playlist_track d sessionUserId params_id trackId now)) reqs"

section \<open>A sample store\<close>

text \<open>
  Three users (the super admin, a second administrator and a regular user), one track and
  three playlists; the last playlist still lists a track that is no longer in the catalog.
\<close>

definition root_sid :: jsstring where "root_sid = js ''cccccccccccccccccccccccc''"
definition alice_sid :: jsstring where "alice_sid = js ''aaaaaaaaaaaaaaaaaaaaaaaa''"
definition alice_sid_upper :: jsstring where "alice_sid_upper = js ''AAAAAAAAAAAAAAAAAAAAAAAA''"
definition bob_sid :: jsstring where "bob_sid = js ''bbbbbbbbbbbbbbbbbbbbbbbb''"
definition song_sid :: jsstring where "song_sid = js ''111111111111111111111111''"
definition ghost_sid :: jsstring where "ghost_sid = js ''222222222222222222222222''"
definition road_trip_sid :: jsstring where "road_trip_sid = js ''dddddddddddddddddddddddd''"
definition bob_mix_sid :: jsstring where "bob_mix_sid = js ''eeeeeeeeeeeeeeeeeeeeeeee''"
definition bob_old_sid :: jsstring where "bob_old_sid = js ''ffffffffffffffffffffffff''"

definition root :: user where
  "root = \<lparr>u_id = ObjectId root_sid, u_username = js ''root'', u_email = js ''admin@tynda.kz'',
           u_password = js ''h0'', u_role = js ''admin'', u_createdAt = 1, u_updatedAt = 1\<rparr>"

definition alice :: user where
  "alice = \<lparr>u_id = ObjectId alice_sid, u_username = js ''alice'', u_email = js ''alice@tynda.kz'',
            u_password = js ''h1'', u_role = js ''admin'', u_createdAt = 2, u_updatedAt = 2\<rparr>"

definition bob :: user where
  "bob = \<lparr>u_id = ObjectId bob_sid, u_username = js ''bob'', u_email = js ''bob@tynda.kz'',
          u_password = js ''h2'', u_role = js ''user'', u_createdAt = 3, u_updatedAt = 3\<rparr>"

definition song :: track where
  "song = \<lparr>t_id = ObjectId song_sid, t_title = js ''Shape of You'', t_artist = js ''Ed Sheeran'',
           t_album = js ''Divide'', t_durationSeconds = 233, t_createdAt = 4\<rparr>"

definition road_trip :: playlist where
  "road_trip = \<lparr>p_id = ObjectId road_trip_sid, p_name = js ''Road Trip'', p_description = [],
                p_coverUrl = [], p_userId = ObjectId alice_sid, p_tracks = [ObjectId song_sid],
                p_createdAt = 10, p_updatedAt = 11\<rparr>"

definition bob_mix :: playlist where
  "bob_mix = \<lparr>p_id = ObjectId bob_mix_sid, p_name = js ''Mix'', p_description = [],
              p_coverUrl = [], p_userId = ObjectId bob_sid, p_tracks = [],
              p_createdAt = 5, p_updatedAt = 5\<rparr>"

definition bob_old :: playlist where
  "bob_old = \<lparr>p_id = ObjectId bob_old_sid, p_name = js ''Old'', p_description = [],
              p_coverUrl = [], p_userId = ObjectId bob_sid,
              p_tracks = [ObjectId song_sid, ObjectId ghost_sid],
              p_createdAt = 20, p_updatedAt = 21\<rparr>"

definition store :: db where
  "store = \<lparr>coll_users = [root, alice, bob], coll_tracks = [song],
            coll_playlists = [road_trip, bob_mix, bob_old]\<rparr>"

section \<open>Facts about the driver's operations\<close>

lemmas sample_ids = root_sid_def alice_sid_def alice_sid_upper_def bob_sid_def song_sid_def
  ghost_sid_def road_trip_sid_def bob_mix_sid_def bob_old_sid_def

lemmas sample_docs = root_def alice_def bob_def song_def road_trip_def bob_mix_def bob_old_def
  store_def

lemmas eval_defs = new_ObjectId_def isValid_def js_def is_hex_def hex_lower_def findOne_def
  find_all_def isAdmin_def error_def json_def

lemma new_ObjectId_valid: "new_ObjectId s = Some x \<Longrightarrow> isValid s"
  by (simp add: new_ObjectId_def split: if_splits)

lemma findOne_None: "findOne q ds = None \<longleftrightarrow> (\<forall>x\<in>set ds. \<not> q x)"
  by (auto simp: findOne_def find_None_iff)

lemma findOne_Some_mem: "findOne q ds = Some x \<Longrightarrow> x \<in> set ds \<and> q x"
  by (auto simp: findOne_def find_Some_iff)

lemma findOne_split:
  "findOne q ds = Some x \<Longrightarrow> \<exists>xs ys. ds = xs @ x # ys \<and> (\<forall>y\<in>set xs. \<not> q y) \<and> q x"
proof (induction ds)
  case Nil
  then show ?case by (simp add: findOne_def)
next
  case (Cons a ds)
  show ?case
  proof (cases "q a")
    case True
    with Cons.prems have "x = a" by (simp add: findOne_def)
    with True have "a # ds = [] @ x # ds \<and> (\<forall>y\<in>set []. \<not> q y) \<and> q x" by simp
    then show ?thesis by blast
  next
    case False
    with Cons.prems have "findOne q ds = Some x" by (simp add: findOne_def)
    from Cons.IH[OF this] obtain xs ys where "ds = xs @ x # ys" "\<forall>y\<in>set xs. \<not> q y" "q x"
      by blast
    with False have "a # ds = (a # xs) @ x # ys \<and> (\<forall>y\<in>set (a # xs). \<not> q y) \<and> q x" by simp
    then show ?thesis by blast
  qed
qed

lemma list_ex_findOne: "list_ex q ds \<longleftrightarrow> findOne q ds \<noteq> None"
  by (auto simp: findOne_None list_ex_iff)

lemma update_first_split:
  "(\<forall>y\<in>set xs. \<not> q y) \<Longrightarrow> q x \<Longrightarrow> update_first q f (xs @ x # ys) = xs @ f x # ys"
  by (induction xs) auto

lemma update_first_no_match: "(\<forall>y\<in>set ds. \<not> q y) \<Longrightarrow> update_first q f ds = ds"
  by (induction ds) auto

lemma update_first_pres:
  "(\<forall>x\<in>set ds. P x) \<Longrightarrow> (\<And>x. P x \<Longrightarrow> P (f x)) \<Longrightarrow> (\<forall>x\<in>set (update_first q f ds). P x)"
  by (induction ds) auto

lemma updateOne_matched:
  "findOne q ds = Some x \<Longrightarrow>
     \<exists>xs ys. ds = xs @ x # ys \<and> updateOne q f ds = (1, xs @ f x # ys)"
proof -
  assume found: "findOne q ds = Some x"
  from findOne_split[OF found] obtain xs ys
    where split: "ds = xs @ x # ys" "\<forall>y\<in>set xs. \<not> q y" "q x" by blast
  have "list_ex q ds" using found by (simp add: list_ex_findOne)
  moreover have "update_first q f ds = xs @ f x # ys"
    using split by (simp add: update_first_split)
  ultimately have "updateOne q f ds = (1, xs @ f x # ys)" by (simp add: updateOne_def)
  with split(1) show ?thesis by blast
qed

lemma updateOne_unmatched: "findOne q ds = None \<Longrightarrow> updateOne q f ds = (0, ds)"
  by (simp add: updateOne_def list_ex_findOne) (simp add: findOne_None update_first_no_match)

lemma sort_desc_sorted: "sorted_wrt (\<lambda>a b. k b \<le> k a) (sort_desc k ds)"
proof -
  have "sorted (map (\<lambda>d. - k d) (sort_key (\<lambda>d. - k d) ds))" by (rule sorted_sort_key)
  then show ?thesis by (simp add: sort_desc_def sorted_map)
qed

lemma set_sort_desc: "set (sort_desc k ds) = set ds"
  by (simp add: sort_desc_def)

section \<open>Reading playlists\<close>

text \<open>
  Claim C4. \<^verbatim>\<open>GET /api/playlists/:id\<close> with a well-formed id, by an authenticated caller
  who is not an administrator: when no playlist has that id, or every playlist with that id
  belongs to somebody else, the response is the 404 "Playlist not found" (never a 403). The
  response is the same value in both cases, so the caller cannot tell them apart.
\<close>

theorem get_playlist_hidden:
  assumes "new_ObjectId params_id = Some pid"
    and "new_ObjectId sid = Some uid"
    and "\<not> isAdmin (findOne (\<lambda>u. u_id u = uid) (coll_users d))"
    and "(\<forall>p\<in>set (coll_playlists d). p_id p \<noteq> pid) \<or>
         (\<forall>p\<in>set (coll_playlists d). p_id p = pid \<longrightarrow> p_userId p \<noteq> uid)"
  shows "get_playlist d sid params_id = error 404 ''Playlist not found'' \<and>
         status (get_playlist d sid params_id) = 404"
proof -
  have valid: "isValid params_id" using assms(1) by (rule new_ObjectId_valid)
  have "\<forall>p\<in>set (coll_playlists d). \<not> (p_id p = pid \<and> p_userId p = uid)"
    using assms(4) by blast
  then have "findOne (\<lambda>p. p_id p = pid \<and>
                 (isAdmin (findOne (\<lambda>u. u_id u = uid) (coll_users d)) \<or> p_userId p = uid))
               (coll_playlists d) = None"
    using assms(3) by (simp add: findOne_None)
  then have "get_playlist d sid params_id = error 404 ''Playlist not found''"
    using valid assms(1,2) by (simp add: get_playlist_def)
  then show ?thesis by (simp add: error_def)
qed

text \<open>The regular user of the sample store asks for the administrator's playlist.\<close>

theorem get_playlist_hidden_witness:
  "new_ObjectId road_trip_sid = Some (ObjectId road_trip_sid) \<and>
   new_ObjectId bob_sid = Some (ObjectId bob_sid) \<and>
   \<not> isAdmin (findOne (\<lambda>u. u_id u = ObjectId bob_sid) (coll_users store)) \<and>
   road_trip \<in> set (coll_playlists store) \<and> p_id road_trip = ObjectId road_trip_sid \<and>
   p_userId road_trip \<noteq> ObjectId bob_sid \<and>
   get_playlist store bob_sid road_trip_sid = error 404 ''Playlist not found'' \<and>
   status (get_playlist store bob_sid road_trip_sid) = 404"
proof -
  have h1: "new_ObjectId road_trip_sid = Some (ObjectId road_trip_sid)"
    by (simp add: eval_defs sample_ids)
  have h2: "new_ObjectId bob_sid = Some (ObjectId bob_sid)"
    by (simp add: eval_defs sample_ids)
  have h3: "\<not> isAdmin (findOne (\<lambda>u. u_id u = ObjectId bob_sid) (coll_users store))"
    by (simp add: eval_defs sample_ids sample_docs)
  have h4: "(\<forall>p\<in>set (coll_playlists store). p_id p \<noteq> ObjectId road_trip_sid) \<or>
            (\<forall>p\<in>set (coll_playlists store).
                p_id p = ObjectId road_trip_sid \<longrightarrow> p_userId p \<noteq> ObjectId bob_sid)"
    by (simp add: eval_defs sample_ids sample_docs)
  have h5: "road_trip \<in> set (coll_playlists store) \<and> p_id road_trip = ObjectId road_trip_sid \<and>
            p_userId road_trip \<noteq> ObjectId bob_sid"
    by (simp add: eval_defs sample_ids sample_docs)
  from get_playlist_hidden[OF h1 h2 h3 h4] h1 h2 h3 h5 show ?thesis by blast
qed

text \<open>
  Claim C5. \<^verbatim>\<open>GET /api/playlists\<close> by an authenticated caller who is not an
  administrator answers with a list of playlists that all carry the caller's id as
  \<open>userId\<close>, ordered by creation date, newest first; the list holds exactly the caller's
  playlists.
\<close>

theorem get_playlists_non_admin:
  assumes "new_ObjectId sid = Some uid"
    and "\<not> isAdmin (findOne (\<lambda>u. u_id u = uid) (coll_users d))"
  shows "\<exists>ps. get_playlists d sid = json (Playlists ps) \<and>
              (\<forall>p\<in>set ps. p_userId p = uid) \<and>
              sorted_wrt (\<lambda>a b. p_createdAt b \<le> p_createdAt a) ps \<and>
              set ps = {p \<in> set (coll_playlists d). p_userId p = uid}"
proof -
  let ?ps = "sort_desc p_createdAt (find_all (\<lambda>p. p_userId p = uid) (coll_playlists d))"
  have "get_playlists d sid = json (Playlists ?ps)"
    using assms by (simp add: get_playlists_def)
  moreover have "set ?ps = {p \<in> set (coll_playlists d). p_userId p = uid}"
    by (simp add: set_sort_desc find_all_def)
  moreover have "sorted_wrt (\<lambda>a b. p_createdAt b \<le> p_createdAt a) ?ps"
    by (rule sort_desc_sorted)
  ultimately show ?thesis by auto
qed

text \<open>The regular user of the sample store lists playlists: the newer one comes first.\<close>

theorem get_playlists_non_admin_witness:
  "new_ObjectId bob_sid = Some (ObjectId bob_sid) \<and>
   \<not> isAdmin (findOne (\<lambda>u. u_id u = ObjectId bob_sid) (coll_users store)) \<and>
   get_playlists store bob_sid = json (Playlists [bob_old, bob_mix]) \<and>
   (\<exists>ps. get_playlists store bob_sid = json (Playlists ps) \<and>
         (\<forall>p\<in>set ps. p_userId p = ObjectId bob_sid) \<and>
         sorted_wrt (\<lambda>a b. p_createdAt b \<le> p_createdAt a) ps \<and>
         set ps = {p \<in> set (coll_playlists store). p_userId p = ObjectId bob_sid})"
proof -
  have h1: "new_ObjectId bob_sid = Some (ObjectId bob_sid)"
    by (simp add: eval_defs sample_ids)
  have h2: "\<not> isAdmin (findOne (\<lambda>u. u_id u = ObjectId bob_sid) (coll_users store))"
    by (simp add: eval_defs sample_ids sample_docs)
  have h3: "get_playlists store bob_sid = json (Playlists [bob_old, bob_mix])"
    by (simp add: get_playlists_def sort_desc_def eval_defs sample_ids sample_docs)
  from get_playlists_non_admin[OF h1 h2] h1 h2 h3 show ?thesis by blast
qed

section \<open>Role updates and user deletion\<close>

lemma js_user_facts: "js ''user'' \<noteq> []" "js ''user'' \<noteq> js ''admin''"
  by (simp_all add: js_def)

text \<open>
  Claim C1, as the code has it. The admin router runs behind the middleware
  \<^verbatim>\<open>isAuthenticated\<close> and \<^verbatim>\<open>isAdmin\<close>, so its handlers are reached by an authenticated
  administrator: the session's user id is the text of an ObjectId, and the user with that
  id has the role \<^verbatim>\<open>'admin'\<close>. A role update by such a caller that targets the super admin
  (the user whose email is \<^verbatim>\<open>admin@tynda.kz\<close>) with any role value other than \<^verbatim>\<open>'admin'\<close>
  leaves the whole store as it was. The status is 403 when the requested role is
  \<^verbatim>\<open>'user'\<close> and the id string of the request differs from the session's user id; it is
  400 otherwise: a missing or unknown role value fails validation, and the self-demotion
  check, which comes before the super-admin check, answers when the two strings are equal.
\<close>

theorem patch_user_role_super_admin:
  assumes "new_ObjectId sid = Some caller"
    and "isAdmin (findOne (\<lambda>u. u_id u = caller) (coll_users d))"
    and "new_ObjectId params_id = Some target"
    and "findOne (\<lambda>u. u_id u = target) (coll_users d) = Some su"
    and "u_email su = js ''admin@tynda.kz''"
    and "role \<noteq> Some (js ''admin'')"
  shows "snd (patch_user_role d sid params_id role now) = d \<and>
         status (fst (patch_user_role d sid params_id role now)) =
           (if role = Some (js ''user'') \<and> params_id \<noteq> sid then 403 else 400)"
proof (cases role)
  case None
  then show ?thesis by (simp add: patch_user_role_def error_def)
next
  case (Some r)
  have valid: "isValid params_id" using assms(3) by (rule new_ObjectId_valid)
  show ?thesis
  proof (cases "r = js ''user''")
    case True
    show ?thesis
      using valid Some True assms(3,4,5)
      by (simp add: patch_user_role_def error_def js_user_facts)
  next
    case False
    with Some assms(6) have "r \<noteq> js ''user''" "r \<noteq> js ''admin''" by simp_all
    then show ?thesis
      using valid Some by (simp add: patch_user_role_def error_def)
  qed
qed

text \<open>The second administrator of the sample store tries to demote the super admin.\<close>

theorem patch_user_role_super_admin_witness:
  "new_ObjectId alice_sid = Some (ObjectId alice_sid) \<and>
   isAdmin (findOne (\<lambda>u. u_id u = ObjectId alice_sid) (coll_users store)) \<and>
   new_ObjectId root_sid = Some (ObjectId root_sid) \<and>
   findOne (\<lambda>u. u_id u = ObjectId root_sid) (coll_users store) = Some root \<and>
   u_email root = js ''admin@tynda.kz'' \<and>
   Some (js ''user'') \<noteq> Some (js ''admin'') \<and>
   snd (patch_user_role store alice_sid root_sid (Some (js ''user'')) 100) = store \<and>
   status (fst (patch_user_role store alice_sid root_sid (Some (js ''user'')) 100)) = 403"
proof -
  have a1: "new_ObjectId alice_sid = Some (ObjectId alice_sid)"
    by (simp add: eval_defs sample_ids)
  have a2: "isAdmin (findOne (\<lambda>u. u_id u = ObjectId alice_sid) (coll_users store))"
    by (simp add: eval_defs sample_ids sample_docs)
  have h1: "new_ObjectId root_sid = Some (ObjectId root_sid)"
    by (simp add: eval_defs sample_ids)
  have h2: "findOne (\<lambda>u. u_id u = ObjectId root_sid) (coll_users store) = Some root"
    by (simp add: eval_defs sample_ids sample_docs)
  have h3: "u_email root = js ''admin@tynda.kz''"
    by (simp add: root_def)
  have h4: "Some (js ''user'') \<noteq> Some (js ''admin'')"
    by (simp add: js_def)
  have h5: "root_sid \<noteq> alice_sid"
    by (simp add: sample_ids js_def)
  from patch_user_role_super_admin[OF a1 a2 h1 h2 h3 h4, of 100] a1 a2 h1 h2 h3 h4 h5
  show ?thesis by simp
qed

text \<open>
  The claim as stated promises a 403 for every such request. The super admin, an
  authenticated administrator, asking for the own demotion under the own id string, gets
  the 400 of the self-demotion check.
\<close>

theorem patch_user_role_super_admin_counterexample:
  "root \<in> set (coll_users store) \<and> u_email root = js ''admin@tynda.kz'' \<and>
   new_ObjectId root_sid = Some (u_id root) \<and> isAdmin (Some root) \<and>
   status (fst (patch_user_role store root_sid root_sid (Some (js ''user'')) 100)) = 400 \<and>
   status (fst (patch_user_role store root_sid root_sid (Some (js ''user'')) 100)) \<noteq> 403"
  by (simp add: patch_user_role_def eval_defs sample_ids sample_docs)

text \<open>
  Self-demotion and self-deletion. Both handlers compare the id of the path with the
  session's user id as strings, while the store is addressed by ObjectId, which reads
  hexadecimal digits of either case. When the two strings are equal the request is refused
  with 400 and nothing changes:
\<close>

lemma self_target_same_string_refused:
  assumes "role \<noteq> Some (js ''admin'')"
  shows "snd (patch_user_role d sid sid role now) = d"
    and "status (fst (patch_user_role d sid sid role now)) = 400"
    and "snd (delete_user d sid sid) = d"
    and "status (fst (delete_user d sid sid)) = 400"
  using assms
  by (auto simp: patch_user_role_def delete_user_def error_def split: option.splits)

text \<open>
  Claim C6 on the code: the second administrator of the sample store, whose session holds
  the id in lower case, sends the own id in upper case. The path names the caller's own
  ObjectId, the string comparison does not see it, and the caller's role is set to
  \<^verbatim>\<open>'user'\<close>; the same path deletes the caller's own account.
\<close>

theorem self_target_case_variant_accepted:
  "new_ObjectId alice_sid = Some (u_id alice) \<and>
   new_ObjectId alice_sid_upper = Some (u_id alice) \<and>
   u_role alice = js ''admin'' \<and>
   patch_user_role store alice_sid alice_sid_upper (Some (js ''user'')) 100 =
     (json (Message (js ''User role updated to user'')),
      store\<lparr>coll_users := [root, alice\<lparr>u_role := js ''user'', u_updatedAt := 100\<rparr>, bob]\<rparr>) \<and>
   delete_user store alice_sid alice_sid_upper =
     (json (Message (js ''User deleted successfully'')), store\<lparr>coll_users := [root, bob]\<rparr>)"
  by (simp add: patch_user_role_def delete_user_def updateOne_def deleteOne_def eval_defs
      sample_ids sample_docs)

section \<open>Adding a track\<close>

lemma isValid_nonempty: "isValid s \<Longrightarrow> s \<noteq> []"
  by (auto simp: isValid_def)

text \<open>
  Claim C3, as the code has it. An add request whose \<open>trackId\<close> is well formed and names
  no track of the catalog leaves the whole store as it was (so no membership list changes).
  The response is the 404 "Track not found" when the playlist id of the path is well formed;
  a malformed playlist id is answered first, with 400.
\<close>

theorem add_missing_track:
  assumes "new_ObjectId trackId = Some t"
    and "\<forall>x\<in>set (coll_tracks d). t_id x \<noteq> t"
  shows "snd (post_playlist_track d sid params_id (Some trackId) now) = d \<and>
         fst (post_playlist_track d sid params_id (Some trackId) now) =
           (if isValid params_id then error 404 ''Track not found''
            else error 400 ''Invalid playlist ID'') \<and>
         status (fst (post_playlist_track d sid params_id (Some trackId) now)) =
           (if isValid params_id then 404 else 400)"
proof -
  have valid: "isValid trackId" using assms(1) by (rule new_ObjectId_valid)
  then have nonempty: "trackId \<noteq> []" by (rule isValid_nonempty)
  have "findOne (\<lambda>x. t_id x = t) (coll_tracks d) = None"
    using assms(2) by (simp add: findOne_None)
  then show ?thesis
    using valid nonempty assms(1) by (simp add: post_playlist_track_def error_def)
qed

text \<open>An administrator of the sample store adds a track that is not in the catalog.\<close>

theorem add_missing_track_witness:
  "new_ObjectId ghost_sid = Some (ObjectId ghost_sid) \<and>
   ObjectId ghost_sid \<notin> set (map t_id (coll_tracks store)) \<and>
   isValid road_trip_sid \<and>
   snd (post_playlist_track store alice_sid road_trip_sid (Some ghost_sid) 100) = store \<and>
   status (fst (post_playlist_track store alice_sid road_trip_sid (Some ghost_sid) 100)) = 404"
proof -
  have h1: "new_ObjectId ghost_sid = Some (ObjectId ghost_sid)"
    by (simp add: eval_defs sample_ids)
  have h2: "\<forall>x\<in>set (coll_tracks store). t_id x \<noteq> ObjectId ghost_sid"
    by (simp add: eval_defs sample_ids sample_docs)
  have h3: "isValid road_trip_sid"
    by (simp add: eval_defs sample_ids)
  have h4: "ObjectId ghost_sid \<notin> set (map t_id (coll_tracks store))"
    by (simp add: eval_defs sample_ids sample_docs)
  from add_missing_track[OF h1 h2, of alice_sid road_trip_sid 100] h1 h3 h4
  show ?thesis by (simp add: error_def)
qed

text \<open>
  The claim as stated promises the 404 for every request with such a \<open>trackId\<close>. With a
  malformed playlist id in the path the response is 400.
\<close>

theorem add_missing_track_counterexample:
  "new_ObjectId ghost_sid = Some (ObjectId ghost_sid) \<and>
   ObjectId ghost_sid \<notin> set (map t_id (coll_tracks store)) \<and>
   status (fst (post_playlist_track store alice_sid (js ''nope'') (Some ghost_sid) 100)) = 400 \<and>
   status (fst (post_playlist_track store alice_sid (js ''nope'') (Some ghost_sid) 100)) \<noteq> 404"
  by (simp add: post_playlist_track_def eval_defs sample_ids sample_docs)

lemma addToSet_distinct: "distinct xs \<Longrightarrow> distinct (addToSet x xs)"
  by (simp add: addToSet_def)

lemma addToSet_present: "x \<in> set xs \<Longrightarrow> addToSet x xs = xs"
  by (simp add: addToSet_def)

lemma post_playlist_track_effect:
  "snd (post_playlist_track d sid params_id trackId now) = d \<or>
   (\<exists>q t. snd (post_playlist_track d sid params_id trackId now) =
      d\<lparr>coll_playlists :=
          update_first q (\<lambda>p. p\<lparr>p_tracks := addToSet t (p_tracks p), p_updatedAt := now\<rparr>)
            (coll_playlists d)\<rparr>)"
  unfolding post_playlist_track_def updateOne_def
  by (simp split: option.splits) blast

lemma post_playlist_track_distinct:
  assumes "\<forall>p\<in>set (coll_playlists d). distinct (p_tracks p)"
  shows "\<forall>p\<in>set (coll_playlists (snd (post_playlist_track d sid params_id trackId now))).
           distinct (p_tracks p)"
proof -
  have step: "\<forall>p\<in>set (update_first q
                  (\<lambda>p. p\<lparr>p_tracks := addToSet t (p_tracks p), p_updatedAt := now\<rparr>)
                  (coll_playlists d)). distinct (p_tracks p)" for q t
    using assms by (rule update_first_pres) (simp add: addToSet_distinct)
  from post_playlist_track_effect[of d sid params_id trackId now] show ?thesis
  proof
    assume "snd (post_playlist_track d sid params_id trackId now) = d"
    with assms show ?thesis by simp
  next
    assume "\<exists>q t. snd (post_playlist_track d sid params_id trackId now) =
      d\<lparr>coll_playlists :=
          update_first q (\<lambda>p. p\<lparr>p_tracks := addToSet t (p_tracks p), p_updatedAt := now\<rparr>)
            (coll_playlists d)\<rparr>"
    then obtain q t where "snd (post_playlist_track d sid params_id trackId now) =
      d\<lparr>coll_playlists :=
          update_first q (\<lambda>p. p\<lparr>p_tracks := addToSet t (p_tracks p), p_updatedAt := now\<rparr>)
            (coll_playlists d)\<rparr>" by blast
    with step[of q t] show ?thesis by simp
  qed
qed

lemma add_tracks_distinct:
  "\<forall>p\<in>set (coll_playlists d). distinct (p_tracks p) \<Longrightarrow>
   \<forall>p\<in>set (coll_playlists (add_tracks d reqs)). distinct (p_tracks p)"
proof (induction d reqs rule: add_tracks.induct)
  case (1 d)
  then show ?case by simp
next
  case (2 d sessionUserId params_id trackId now reqs)
  have "\<forall>p\<in>set (coll_playlists (snd (post_playlist_track d sessionUserId params_id trackId now))).
          distinct (p_tracks p)"
    using "2.prems" by (rule post_playlist_track_distinct)
  then show ?case using "2.IH" by simp
qed

lemma add_present_track:
  assumes "new_ObjectId trackId = Some t"
    and "new_ObjectId params_id = Some pid"
    and "new_ObjectId sid = Some uid"
    and "findOne (\<lambda>p. p_id p = pid \<and> p_userId p = uid) (coll_playlists d) = Some p"
    and "t \<in> set (p_tracks p)"
  shows "map p_tracks (coll_playlists (snd (post_playlist_track d sid params_id (Some trackId) now)))
           = map p_tracks (coll_playlists d)"
    and "findOne (\<lambda>x. t_id x = t) (coll_tracks d) = Some tr \<Longrightarrow>
           \<exists>xs ys. coll_playlists d = xs @ p # ys \<and>
             post_playlist_track d sid params_id (Some trackId) now =
               (json (TrackAdded (js ''Track added to playlist'') tr),
                d\<lparr>coll_playlists := xs @ p\<lparr>p_updatedAt := now\<rparr> # ys\<rparr>)"
proof -
  have v1: "isValid trackId" using assms(1) by (rule new_ObjectId_valid)
  have v2: "isValid params_id" using assms(2) by (rule new_ObjectId_valid)
  have v3: "trackId \<noteq> []" using v1 by (rule isValid_nonempty)
  let ?f = "\<lambda>p. p\<lparr>p_tracks := addToSet t (p_tracks p), p_updatedAt := now\<rparr>"
  from updateOne_matched[OF assms(4), of ?f] obtain xs ys
    where split: "coll_playlists d = xs @ p # ys"
      and upd: "updateOne (\<lambda>p. p_id p = pid \<and> p_userId p = uid) ?f (coll_playlists d)
                  = (1, xs @ ?f p # ys)" by blast
  have same: "?f p = p\<lparr>p_updatedAt := now\<rparr>"
    using assms(5) by (simp add: addToSet_present)
  show "map p_tracks (coll_playlists (snd (post_playlist_track d sid params_id (Some trackId) now)))
           = map p_tracks (coll_playlists d)"
    using v1 v2 v3 assms(1,2,3) upd same split
    by (cases "findOne (\<lambda>x. t_id x = t) (coll_tracks d)")
       (simp_all add: post_playlist_track_def)
  show "\<exists>xs ys. coll_playlists d = xs @ p # ys \<and>
             post_playlist_track d sid params_id (Some trackId) now =
               (json (TrackAdded (js ''Track added to playlist'') tr),
                d\<lparr>coll_playlists := xs @ p\<lparr>p_updatedAt := now\<rparr> # ys\<rparr>)"
    if found: "findOne (\<lambda>x. t_id x = t) (coll_tracks d) = Some tr"
  proof -
    have "post_playlist_track d sid params_id (Some trackId) now =
               (json (TrackAdded (js ''Track added to playlist'') tr),
                d\<lparr>coll_playlists := xs @ p\<lparr>p_updatedAt := now\<rparr> # ys\<rparr>)"
      using found v1 v2 v3 assms(1,2,3) upd same
      by (simp add: post_playlist_track_def)
    with split show ?thesis by blast
  qed
qed

text \<open>
  Claim C2. When no playlist of the store lists a track twice (a new playlist starts with
  no track), none does after any run of add requests, whatever their sessions, ids and
  bodies. And when the playlist that a request addresses lists the track already, no
  membership list of the store changes; if the track is in the catalog the request
  succeeds and the store differs only in that playlist's \<open>updatedAt\<close>.
\<close>

theorem add_track_no_duplicates:
  "((\<forall>p\<in>set (coll_playlists d). distinct (p_tracks p)) \<longrightarrow>
      (\<forall>p\<in>set (coll_playlists (add_tracks d reqs)). distinct (p_tracks p))) \<and>
   (new_ObjectId trackId = Some t \<and> new_ObjectId params_id = Some pid \<and>
    new_ObjectId sid = Some uid \<and>
    findOne (\<lambda>p. p_id p = pid \<and> p_userId p = uid) (coll_playlists d) = Some p \<and>
    t \<in> set (p_tracks p) \<longrightarrow>
      map p_tracks (coll_playlists (snd (post_playlist_track d sid params_id (Some trackId) now)))
        = map p_tracks (coll_playlists d) \<and>
      (\<forall>tr. findOne (\<lambda>x. t_id x = t) (coll_tracks d) = Some tr \<longrightarrow>
         (\<exists>xs ys. coll_playlists d = xs @ p # ys \<and>
             post_playlist_track d sid params_id (Some trackId) now =
               (json (TrackAdded (js ''Track added to playlist'') tr),
                d\<lparr>coll_playlists := xs @ p\<lparr>p_updatedAt := now\<rparr> # ys\<rparr>))))"
  using add_tracks_distinct[of d reqs] add_present_track[of trackId t params_id pid sid uid d p]
  by blast

text \<open>
  In the sample store no playlist lists a track twice. The regular user adds the same track
  twice to the empty playlist, which then lists it once; an administrator adds to the own
  playlist the track it lists already.
\<close>

theorem add_track_no_duplicates_witness:
  "list_all (\<lambda>p. distinct (p_tracks p)) (coll_playlists store) \<and>
   list_all (\<lambda>p. distinct (p_tracks p))
     (coll_playlists (add_tracks store
        [(bob_sid, bob_mix_sid, Some song_sid, 100), (bob_sid, bob_mix_sid, Some song_sid, 101)])) \<and>
   map p_tracks (coll_playlists (add_tracks store
        [(bob_sid, bob_mix_sid, Some song_sid, 100), (bob_sid, bob_mix_sid, Some song_sid, 101)]))
     = [ [ObjectId song_sid], [ObjectId song_sid], [ObjectId song_sid, ObjectId ghost_sid] ] \<and>
   new_ObjectId song_sid = Some (ObjectId song_sid) \<and>
   new_ObjectId road_trip_sid = Some (ObjectId road_trip_sid) \<and>
   new_ObjectId alice_sid = Some (ObjectId alice_sid) \<and>
   findOne (\<lambda>p. p_id p = ObjectId road_trip_sid \<and> p_userId p = ObjectId alice_sid)
     (coll_playlists store) = Some road_trip \<and>
   ObjectId song_sid \<in> set (p_tracks road_trip) \<and>
   findOne (\<lambda>x. t_id x = ObjectId song_sid) (coll_tracks store) = Some song \<and>
   map p_tracks (coll_playlists
       (snd (post_playlist_track store alice_sid road_trip_sid (Some song_sid) 100)))
     = map p_tracks (coll_playlists store) \<and>
   (\<exists>xs ys. coll_playlists store = xs @ road_trip # ys \<and>
      post_playlist_track store alice_sid road_trip_sid (Some song_sid) 100 =
        (json (TrackAdded (js ''Track added to playlist'') song),
         store\<lparr>coll_playlists := xs @ road_trip\<lparr>p_updatedAt := 100\<rparr> # ys\<rparr>))"
proof -
  let ?reqs = "[(bob_sid, bob_mix_sid, Some song_sid, 100::int),
               (bob_sid, bob_mix_sid, Some song_sid, 101)]"
  have h0: "\<forall>p\<in>set (coll_playlists store). distinct (p_tracks p)"
    by (simp add: sample_docs sample_ids js_def)
  have h1: "new_ObjectId song_sid = Some (ObjectId song_sid)"
    by (simp add: eval_defs sample_ids)
  have h2: "new_ObjectId road_trip_sid = Some (ObjectId road_trip_sid)"
    by (simp add: eval_defs sample_ids)
  have h3: "new_ObjectId alice_sid = Some (ObjectId alice_sid)"
    by (simp add: eval_defs sample_ids)
  have h4: "findOne (\<lambda>p. p_id p = ObjectId road_trip_sid \<and> p_userId p = ObjectId alice_sid)
              (coll_playlists store) = Some road_trip"
    by (simp add: eval_defs sample_ids sample_docs)
  have h5: "ObjectId song_sid \<in> set (p_tracks road_trip)"
    by (simp add: road_trip_def)
  have h6: "findOne (\<lambda>x. t_id x = ObjectId song_sid) (coll_tracks store) = Some song"
    by (simp add: eval_defs sample_ids sample_docs)
  have run: "map p_tracks (coll_playlists (add_tracks store ?reqs))
     = [ [ObjectId song_sid], [ObjectId song_sid], [ObjectId song_sid, ObjectId ghost_sid] ]"
    by (simp add: post_playlist_track_def updateOne_def addToSet_def eval_defs sample_ids
        sample_docs)
  note inst = add_track_no_duplicates[where d = store and reqs = ?reqs and trackId = song_sid
      and t = "ObjectId song_sid" and params_id = road_trip_sid and pid = "ObjectId road_trip_sid"
      and sid = alice_sid and uid = "ObjectId alice_sid" and p = road_trip and now = 100]
  from inst h0 have c1: "\<forall>p\<in>set (coll_playlists (add_tracks store ?reqs)). distinct (p_tracks p)"
    by blast
  from inst h1 h2 h3 h4 h5 h6 have c2:
    "map p_tracks (coll_playlists
       (snd (post_playlist_track store alice_sid road_trip_sid (Some song_sid) 100)))
     = map p_tracks (coll_playlists store) \<and>
     (\<exists>xs ys. coll_playlists store = xs @ road_trip # ys \<and>
      post_playlist_track store alice_sid road_trip_sid (Some song_sid) 100 =
        (json (TrackAdded (js ''Track added to playlist'') song),
         store\<lparr>coll_playlists := xs @ road_trip\<lparr>p_updatedAt := 100\<rparr> # ys\<rparr>))"
    by blast
  from h0 c1 have "list_all (\<lambda>p. distinct (p_tracks p)) (coll_playlists store)"
    "list_all (\<lambda>p. distinct (p_tracks p)) (coll_playlists (add_tracks store ?reqs))"
    by (simp_all only: list_all_iff)
  with run h1 h2 h3 h4 h5 h6 c2 show ?thesis by blast
qed

section \<open>Removing a track\<close>

lemma pull_absent: "x \<notin> set xs \<Longrightarrow> pull x xs = xs"
  by (induction xs) (auto simp: pull_def)

lemma delete_playlist_track_matched:
  assumes "new_ObjectId params_id = Some pid"
    and "new_ObjectId sid = Some uid"
    and "findOne (\<lambda>p. p_id p = pid \<and> p_userId p = uid) (coll_playlists d) = Some p"
    and "new_ObjectId trackId = Some t"
  shows "\<exists>xs ys. coll_playlists d = xs @ p # ys \<and>
           delete_playlist_track d sid params_id trackId now =
             (json (Message (js ''Track removed from playlist'')),
              d\<lparr>coll_playlists :=
                  xs @ p\<lparr>p_tracks := pull t (p_tracks p), p_updatedAt := now\<rparr> # ys\<rparr>)"
proof -
  have v1: "isValid params_id" using assms(1) by (rule new_ObjectId_valid)
  have v2: "isValid trackId" using assms(4) by (rule new_ObjectId_valid)
  let ?f = "\<lambda>p. p\<lparr>p_tracks := pull t (p_tracks p), p_updatedAt := now\<rparr>"
  from updateOne_matched[OF assms(3), of ?f] obtain xs ys
    where split: "coll_playlists d = xs @ p # ys"
      and upd: "updateOne (\<lambda>p. p_id p = pid \<and> p_userId p = uid) ?f (coll_playlists d)
                  = (1, xs @ ?f p # ys)" by blast
  have "delete_playlist_track d sid params_id trackId now =
             (json (Message (js ''Track removed from playlist'')),
              d\<lparr>coll_playlists := xs @ ?f p # ys\<rparr>)"
    using v1 v2 assms(1,2,4) upd by (simp add: delete_playlist_track_def)
  with split show ?thesis by blast
qed

lemma delete_playlist_track_malformed:
  "\<not> isValid trackId \<Longrightarrow>
     delete_playlist_track d sid params_id trackId now = (error 400 ''Invalid ID format'', d)"
  by (simp add: delete_playlist_track_def)

text \<open>
  Claim C9, as the code has it. A remove request with a well-formed track id, on a
  playlist that the caller owns (the first playlist with the id of the path and the
  caller's id as \<open>userId\<close>), succeeds. The membership list afterwards is the old one without
  the entries equal to the given id, the other members in their old order; when the id was
  not a member the list is the old one. Every other document of the store is as before.
  A request whose track id is not well formed is refused with the 400 "Invalid ID format",
  whatever the playlist and the caller, and the store is as before.
\<close>

theorem remove_track_frame:
  "(new_ObjectId params_id = Some pid \<and> new_ObjectId sid = Some uid \<and>
    findOne (\<lambda>p. p_id p = pid \<and> p_userId p = uid) (coll_playlists d) = Some p \<and>
    new_ObjectId trackId = Some t \<longrightarrow>
      (\<exists>xs ys ms. coll_playlists d = xs @ p # ys \<and>
           delete_playlist_track d sid params_id trackId now =
             (json (Message (js ''Track removed from playlist'')),
              d\<lparr>coll_playlists := xs @ p\<lparr>p_tracks := ms, p_updatedAt := now\<rparr> # ys\<rparr>) \<and>
           ms = filter (\<lambda>x. x \<noteq> t) (p_tracks p) \<and>
           (t \<notin> set (p_tracks p) \<longrightarrow> ms = p_tracks p))) \<and>
   (\<not> isValid trackId \<longrightarrow>
      delete_playlist_track d sid params_id trackId now = (error 400 ''Invalid ID format'', d) \<and>
      status (fst (delete_playlist_track d sid params_id trackId now)) = 400 \<and>
      snd (delete_playlist_track d sid params_id trackId now) = d)"
proof (intro conjI impI)
  assume h: "new_ObjectId params_id = Some pid \<and> new_ObjectId sid = Some uid \<and>
    findOne (\<lambda>p. p_id p = pid \<and> p_userId p = uid) (coll_playlists d) = Some p \<and>
    new_ObjectId trackId = Some t"
  then have h1: "new_ObjectId params_id = Some pid" and h2: "new_ObjectId sid = Some uid"
    and h3: "findOne (\<lambda>p. p_id p = pid \<and> p_userId p = uid) (coll_playlists d) = Some p"
    and h4: "new_ObjectId trackId = Some t" by simp_all
  from delete_playlist_track_matched[OF h1 h2 h3 h4, of now] obtain xs ys
    where "coll_playlists d = xs @ p # ys"
      and "delete_playlist_track d sid params_id trackId now =
             (json (Message (js ''Track removed from playlist'')),
              d\<lparr>coll_playlists :=
                  xs @ p\<lparr>p_tracks := pull t (p_tracks p), p_updatedAt := now\<rparr> # ys\<rparr>)"
    by blast
  moreover have "pull t (p_tracks p) = filter (\<lambda>x. x \<noteq> t) (p_tracks p)"
    by (simp add: pull_def)
  moreover have "t \<notin> set (p_tracks p) \<longrightarrow> pull t (p_tracks p) = p_tracks p"
    by (simp add: pull_absent)
  ultimately show "\<exists>xs ys ms. coll_playlists d = xs @ p # ys \<and>
           delete_playlist_track d sid params_id trackId now =
             (json (Message (js ''Track removed from playlist'')),
              d\<lparr>coll_playlists := xs @ p\<lparr>p_tracks := ms, p_updatedAt := now\<rparr> # ys\<rparr>) \<and>
           ms = filter (\<lambda>x. x \<noteq> t) (p_tracks p) \<and>
           (t \<notin> set (p_tracks p) \<longrightarrow> ms = p_tracks p)" by blast
next
  assume bad: "\<not> isValid trackId"
  then show "delete_playlist_track d sid params_id trackId now =
               (error 400 ''Invalid ID format'', d)"
    by (rule delete_playlist_track_malformed)
next
  assume bad: "\<not> isValid trackId"
  then show "status (fst (delete_playlist_track d sid params_id trackId now)) = 400"
    by (simp add: delete_playlist_track_malformed error_def)
next
  assume bad: "\<not> isValid trackId"
  then show "snd (delete_playlist_track d sid params_id trackId now) = d"
    by (simp add: delete_playlist_track_malformed)
qed

text \<open>
  The regular user of the sample store removes the track that is no longer in the catalog
  from the old playlist: the other member stays. The same user then names a track by a
  string that is no ObjectId, and is refused.
\<close>

theorem remove_track_frame_witness:
  "new_ObjectId bob_old_sid = Some (ObjectId bob_old_sid) \<and>
   new_ObjectId bob_sid = Some (ObjectId bob_sid) \<and>
   findOne (\<lambda>p. p_id p = ObjectId bob_old_sid \<and> p_userId p = ObjectId bob_sid)
     (coll_playlists store) = Some bob_old \<and>
   new_ObjectId ghost_sid = Some (ObjectId ghost_sid) \<and>
   filter (\<lambda>x. x \<noteq> ObjectId ghost_sid) (p_tracks bob_old) = [ObjectId song_sid] \<and>
   (\<exists>xs ys ms. coll_playlists store = xs @ bob_old # ys \<and>
      delete_playlist_track store bob_sid bob_old_sid ghost_sid 100 =
        (json (Message (js ''Track removed from playlist'')),
         store\<lparr>coll_playlists := xs @ bob_old\<lparr>p_tracks := ms, p_updatedAt := 100\<rparr> # ys\<rparr>) \<and>
      ms = filter (\<lambda>x. x \<noteq> ObjectId ghost_sid) (p_tracks bob_old) \<and>
      (ObjectId ghost_sid \<notin> set (p_tracks bob_old) \<longrightarrow> ms = p_tracks bob_old)) \<and>
   \<not> isValid (js ''not-an-id'') \<and>
   delete_playlist_track store bob_sid bob_old_sid (js ''not-an-id'') 100 =
     (error 400 ''Invalid ID format'', store) \<and>
   status (fst (delete_playlist_track store bob_sid bob_old_sid (js ''not-an-id'') 100)) = 400 \<and>
   snd (delete_playlist_track store bob_sid bob_old_sid (js ''not-an-id'') 100) = store"
proof -
  have h1: "new_ObjectId bob_old_sid = Some (ObjectId bob_old_sid)"
    by (simp add: eval_defs sample_ids)
  have h2: "new_ObjectId bob_sid = Some (ObjectId bob_sid)"
    by (simp add: eval_defs sample_ids)
  have h3: "findOne (\<lambda>p. p_id p = ObjectId bob_old_sid \<and> p_userId p = ObjectId bob_sid)
              (coll_playlists store) = Some bob_old"
    by (simp add: eval_defs sample_ids sample_docs)
  have h4: "new_ObjectId ghost_sid = Some (ObjectId ghost_sid)"
    by (simp add: eval_defs sample_ids)
  have h5: "filter (\<lambda>x. x \<noteq> ObjectId ghost_sid) (p_tracks bob_old) = [ObjectId song_sid]"
    by (simp add: bob_old_def sample_ids js_def)
  have h6: "\<not> isValid (js ''not-an-id'')"
    by (simp add: isValid_def js_def)
  note good = remove_track_frame[where params_id = bob_old_sid and pid = "ObjectId bob_old_sid"
      and sid = bob_sid and uid = "ObjectId bob_sid" and d = store and p = bob_old
      and trackId = ghost_sid and t = "ObjectId ghost_sid" and now = 100]
  note bad = remove_track_frame[where params_id = bob_old_sid and sid = bob_sid and d = store
      and trackId = "js ''not-an-id''" and now = 100]
  from good h1 h2 h3 h4 have c1:
    "\<exists>xs ys ms. coll_playlists store = xs @ bob_old # ys \<and>
      delete_playlist_track store bob_sid bob_old_sid ghost_sid 100 =
        (json (Message (js ''Track removed from playlist'')),
         store\<lparr>coll_playlists := xs @ bob_old\<lparr>p_tracks := ms, p_updatedAt := 100\<rparr> # ys\<rparr>) \<and>
      ms = filter (\<lambda>x. x \<noteq> ObjectId ghost_sid) (p_tracks bob_old) \<and>
      (ObjectId ghost_sid \<notin> set (p_tracks bob_old) \<longrightarrow> ms = p_tracks bob_old)"
    by blast
  from bad h6 have c2:
    "delete_playlist_track store bob_sid bob_old_sid (js ''not-an-id'') 100 =
       (error 400 ''Invalid ID format'', store) \<and>
     status (fst (delete_playlist_track store bob_sid bob_old_sid (js ''not-an-id'') 100)) = 400 \<and>
     snd (delete_playlist_track store bob_sid bob_old_sid (js ''not-an-id'') 100) = store"
    by blast
  from h1 h2 h3 h4 h5 h6 c1 c2 show ?thesis by blast
qed

text \<open>
  The claim as stated promises success whenever the given track id is not a member. A
  track id that is not well formed is no member of any list, and the request is refused
  with 400.
\<close>

theorem remove_track_frame_counterexample:
  "new_ObjectId road_trip_sid = Some (p_id road_trip) \<and>
   new_ObjectId alice_sid = Some (p_userId road_trip) \<and>
   road_trip \<in> set (coll_playlists store) \<and>
   js ''zzz'' \<notin> set (map toHexString (p_tracks road_trip)) \<and>
   delete_playlist_track store alice_sid road_trip_sid (js ''zzz'') 100 =
     (error 400 ''Invalid ID format'', store) \<and>
   status (fst (delete_playlist_track store alice_sid road_trip_sid (js ''zzz'') 100)) = 400"
  by (simp add: delete_playlist_track_def eval_defs sample_ids sample_docs)



section \<open>The detail of one playlist\<close>

text \<open>
  Claim C7, as the code has it. Every 200 response of \<^verbatim>\<open>GET /api/playlists/:id\<close> carries a
  playlist of the store with the id of the path, the flag \<open>isOwner\<close> and the list
  \<open>tracksData\<close>. The flag is true exactly when the hexadecimal text of the playlist's
  \<open>userId\<close> is the session's user id, that is, for a session that holds the text of the
  ObjectId \<open>uid\<close>, exactly when \<open>userId\<close> is \<open>uid\<close>. \<open>tracksData\<close> is the list of the
  catalog's tracks whose id is in the membership list: the full record of every member
  that the catalog still has, nothing for a member that it has not, and the empty list for
  an empty membership list.
\<close>

theorem get_playlist_detail:
  assumes "status (get_playlist d sid params_id) = 200"
  shows "\<exists>p isOwner tracksData.
           body (get_playlist d sid params_id) = PlaylistDetail p isOwner tracksData \<and>
           p \<in> set (coll_playlists d) \<and> new_ObjectId params_id = Some (p_id p) \<and>
           (isOwner \<longleftrightarrow> toHexString (p_userId p) = sid) \<and>
           (\<forall>uid. toHexString uid = sid \<longrightarrow> (isOwner \<longleftrightarrow> p_userId p = uid)) \<and>
           tracksData = filter (\<lambda>t. t_id t \<in> set (p_tracks p)) (coll_tracks d) \<and>
           (\<forall>t\<in>set (coll_tracks d). t_id t \<in> set (p_tracks p) \<longrightarrow> t \<in> set tracksData) \<and>
           (p_tracks p = [] \<longrightarrow> tracksData = [])"
proof -
  have err: "status (error c m) = c" for c m by (simp add: error_def)
  from assms obtain uid pid p
    where ids: "new_ObjectId sid = Some uid" "new_ObjectId params_id = Some pid"
      and found: "findOne (\<lambda>p. p_id p = pid \<and>
                     (isAdmin (findOne (\<lambda>u. u_id u = uid) (coll_users d)) \<or> p_userId p = uid))
                   (coll_playlists d) = Some p"
      and res: "get_playlist d sid params_id =
                  json (PlaylistDetail p (toHexString (p_userId p) = sid)
                    (if p_tracks p \<noteq> []
                     then find_all (\<lambda>t. t_id t \<in> set (p_tracks p)) (coll_tracks d) else []))"
    by (auto simp: get_playlist_def err server_error_def split: if_splits option.splits)
  let ?data = "filter (\<lambda>t. t_id t \<in> set (p_tracks p)) (coll_tracks d)"
  have data: "(if p_tracks p \<noteq> []
               then find_all (\<lambda>t. t_id t \<in> set (p_tracks p)) (coll_tracks d) else []) = ?data"
    by (simp add: find_all_def)
  have b: "body (get_playlist d sid params_id) =
             PlaylistDetail p (toHexString (p_userId p) = sid) ?data"
    using res data by (simp add: json_def)
  have m: "p \<in> set (coll_playlists d) \<and> new_ObjectId params_id = Some (p_id p)"
    using findOne_Some_mem[OF found] ids(2) by simp
  have o: "\<forall>uid. toHexString uid = sid \<longrightarrow> ((toHexString (p_userId p) = sid) \<longleftrightarrow> p_userId p = uid)"
    by (auto simp: ObjectId.expand)
  have t: "\<forall>t\<in>set (coll_tracks d). t_id t \<in> set (p_tracks p) \<longrightarrow> t \<in> set ?data"
    by simp
  have e: "p_tracks p = [] \<longrightarrow> ?data = []" by simp
  from b m o t e show ?thesis by blast
qed

text \<open>
  An administrator of the sample store reads a playlist of the regular user: not the
  owner, and no track data for the empty membership list.
\<close>

theorem get_playlist_detail_witness:
  "status (get_playlist store alice_sid bob_mix_sid) = 200 \<and>
   body (get_playlist store alice_sid bob_mix_sid) = PlaylistDetail bob_mix False [] \<and>
   (\<exists>p isOwner tracksData.
      body (get_playlist store alice_sid bob_mix_sid) = PlaylistDetail p isOwner tracksData \<and>
      p \<in> set (coll_playlists store) \<and> new_ObjectId bob_mix_sid = Some (p_id p) \<and>
      (isOwner \<longleftrightarrow> toHexString (p_userId p) = alice_sid) \<and>
      (\<forall>uid. toHexString uid = alice_sid \<longrightarrow> (isOwner \<longleftrightarrow> p_userId p = uid)) \<and>
      tracksData = filter (\<lambda>t. t_id t \<in> set (p_tracks p)) (coll_tracks store) \<and>
      (\<forall>t\<in>set (coll_tracks store). t_id t \<in> set (p_tracks p) \<longrightarrow> t \<in> set tracksData) \<and>
      (p_tracks p = [] \<longrightarrow> tracksData = []))"
proof -
  have r: "get_playlist store alice_sid bob_mix_sid = json (PlaylistDetail bob_mix False [])"
    by (simp add: get_playlist_def eval_defs sample_ids sample_docs)
  have h1: "status (get_playlist store alice_sid bob_mix_sid) = 200"
    using r by (simp add: json_def)
  have h2: "body (get_playlist store alice_sid bob_mix_sid) = PlaylistDetail bob_mix False []"
    using r by (simp add: json_def)
  from get_playlist_detail[OF h1] h1 h2 show ?thesis by blast
qed

text \<open>
  The claim as stated promises a track record for every id of the membership list. The old
  playlist of the sample store lists two ids, one of them not in the catalog, and its
  owner gets one record.
\<close>

theorem get_playlist_detail_counterexample:
  "get_playlist store bob_sid bob_old_sid = json (PlaylistDetail bob_old True [song]) \<and>
   p_tracks bob_old = [ObjectId song_sid, ObjectId ghost_sid] \<and>
   ObjectId ghost_sid \<notin> set (map t_id [song])"
  by (simp add: get_playlist_def eval_defs sample_ids sample_docs)

section \<open>Playlist names\<close>

lemma length_dropWhile_le': "length (dropWhile P xs) \<le> length xs"
  by (induction xs) auto

lemma length_trim_le: "length (trim s) \<le> length s"
proof -
  have "length (trim s) = length (dropWhile is_ws (rev (dropWhile is_ws s)))"
    by (simp add: trim_def)
  also have "\<dots> \<le> length (rev (dropWhile is_ws s))"
    by (rule length_dropWhile_le')
  also have "\<dots> = length (dropWhile is_ws s)" by simp
  also have "\<dots> \<le> length s" by (rule length_dropWhile_le')
  finally show ?thesis .
qed

lemma trim_replicate: "\<not> is_ws c \<Longrightarrow> trim (replicate n c) = replicate n c"
proof -
  assume c: "\<not> is_ws c"
  have "dropWhile is_ws (replicate n c) = replicate n c"
    using c by (cases n) simp_all
  then show ?thesis by (simp add: trim_def)
qed

text \<open>
  What the two validations give. A playlist that \<^verbatim>\<open>POST /api/playlists\<close> creates has a
  name of one to a hundred code units; an update leaves no name empty.
\<close>

lemma post_playlist_name:
  assumes "post_playlist d sid name description coverUrl now insertedId = (r, d')"
    and "status r = 201"
  shows "\<exists>p. coll_playlists d' = coll_playlists d @ [p] \<and> p_name p \<noteq> [] \<and>
             length (p_name p) \<le> 100 \<and> p_tracks p = []"
proof -
  have err: "status (error c m) = c" for c m by (simp add: error_def)
  from assms obtain n uid
    where n: "name = Some n" "trim n \<noteq> []" "length n \<le> 100"
      and d': "coll_playlists d' = coll_playlists d @
                 [\<lparr>p_id = insertedId, p_name = trim n, p_description = opt_trim description,
                   p_coverUrl = opt_trim coverUrl, p_userId = uid, p_tracks = [],
                   p_createdAt = now, p_updatedAt = now\<rparr>]"
    by (auto simp: post_playlist_def err server_error_def Let_def
        split: option.splits if_splits)
  have "length (trim n) \<le> 100" using length_trim_le[of n] n(3) by simp
  with n(2) d' show ?thesis by simp
qed

lemma put_playlist_names_nonempty:
  assumes "\<forall>p\<in>set (coll_playlists d). p_name p \<noteq> []"
  shows "\<forall>p\<in>set (coll_playlists (snd (put_playlist d sid params_id name description coverUrl now))).
           p_name p \<noteq> []"
proof (cases "case name of None \<Rightarrow> False | Some n \<Rightarrow> trim n = []")
  case True
  then show ?thesis using assms by (simp add: put_playlist_def)
next
  case False
  then have keep: "p_name p \<noteq> [] \<Longrightarrow> p_name (updateData name description coverUrl now p) \<noteq> []"
    for p by (simp add: updateData_def split: option.splits)
  have upd: "\<forall>p\<in>set (update_first q (updateData name description coverUrl now) (coll_playlists d)).
               p_name p \<noteq> []" for q
    using assms by (rule update_first_pres) (rule keep)
  show ?thesis
    using assms upd
    by (auto simp: put_playlist_def updateOne_def split: option.splits if_splits)
qed

text \<open>
  Claim C8 on the code. All names of the sample store are within the bounds. The owner
  renames a playlist to a name of 101 code units: \<^verbatim>\<open>PUT /api/playlists/:id\<close> checks that
  the name is not blank and stores it, while \<^verbatim>\<open>POST /api/playlists\<close> refuses the same name.
\<close>

theorem put_playlist_long_name:
  "list_all (\<lambda>p. p_name p \<noteq> [] \<and> length (p_name p) \<le> 100) (coll_playlists store) \<and>
   put_playlist store alice_sid road_trip_sid (Some (replicate 101 0x61)) None None 100 =
     (json (Message (js ''Playlist updated successfully'')),
      store\<lparr>coll_playlists :=
        [road_trip\<lparr>p_name := replicate 101 0x61, p_updatedAt := 100\<rparr>, bob_mix, bob_old]\<rparr>) \<and>
   length (p_name (road_trip\<lparr>p_name := replicate 101 0x61, p_updatedAt := 100\<rparr>)) = 101 \<and>
   fst (post_playlist store alice_sid (Some (replicate 101 0x61)) None None 100
          (ObjectId ghost_sid)) = error 400 ''Name must be 100 characters or less''"
proof -
  have ws: "\<not> is_ws (0x61 :: 16 word)" by (simp add: is_ws_def)
  have tr: "trim (replicate 101 (0x61 :: 16 word)) = replicate 101 0x61"
    using ws by (rule trim_replicate)
  have ne: "replicate 101 (0x61 :: 16 word) \<noteq> []" by simp
  have a: "list_all (\<lambda>p. p_name p \<noteq> [] \<and> length (p_name p) \<le> 100) (coll_playlists store)"
    by (simp add: sample_docs js_def)
  have b: "put_playlist store alice_sid road_trip_sid (Some (replicate 101 0x61)) None None 100 =
     (json (Message (js ''Playlist updated successfully'')),
      store\<lparr>coll_playlists :=
        [road_trip\<lparr>p_name := replicate 101 0x61, p_updatedAt := 100\<rparr>, bob_mix, bob_old]\<rparr>)"
    using ne by (simp add: put_playlist_def updateOne_def updateData_def tr eval_defs sample_ids
        sample_docs)
  have c: "fst (post_playlist store alice_sid (Some (replicate 101 0x61)) None None 100
          (ObjectId ghost_sid)) = error 400 ''Name must be 100 characters or less''"
    using ne by (simp add: post_playlist_def tr)
  from a b c show ?thesis by simp
qed

end
